theory Spec2Isabelle
  imports Complex_Main
begin

section \<open>The Button Game\<close>

text \<open>
  A shallow embedding of \<^verbatim>\<open>box.py\<close>, \<^verbatim>\<open>box_spawner.py\<close> and the
  sprite update of \<^verbatim>\<open>main.py\<close>.

  \<^item> Python floats are read as exact real numbers: the decimal literals of the source
    (\<open>1.2\<close>, \<open>0.06\<close>, \<open>0.001\<close>) denote the corresponding rationals and arithmetic
    does not round. This reading decides signs and orderings. Where a property names the
    very figure that a float expression returns, the expression is given a second time
    with every operation rounded to binary64 (\<open>time_left_seconds_binary64\<close>).
    Python's unbounded \<open>int\<close> is \<open>int\<close>.
  \<^item> The state that the source reads from pygame is passed in: the reading of
    \<^verbatim>\<open>pygame.time.get_ticks()\<close> is the argument \<open>now\<close> (one reading for one
    call), the pointer position of \<^verbatim>\<open>pygame.mouse.get_pos()\<close> is an argument, and
    the generator behind \<^verbatim>\<open>random()\<close> is a tape of draws with a read position.
  \<^item> An exception is a value of type \<open>error\<close>; a method that mutates its object returns
    the object after the call.
\<close>

subsection \<open>What the program uses of pygame and of the random module\<close>

datatype error = GameOver | ValueError | AttributeError

type_synonym Vector2 = "real \<times> real"

text \<open>\<^verbatim>\<open>pygame.rect.Rect\<close>: integer position and size; width and height may be negative.\<close>

record Rect =
  left :: int
  top_rect :: int
  width :: int
  height :: int

definition right :: "Rect \<Rightarrow> int" where
  "right r = left r + width r"

definition bottom :: "Rect \<Rightarrow> int" where
  "bottom r = top_rect r + height r"

text \<open>\<^verbatim>\<open>Rect.collidepoint\<close>: the right and the bottom edge are outside the rectangle.\<close>

definition collidepoint :: "Rect \<Rightarrow> int \<times> int \<Rightarrow> bool" where
  "collidepoint r p \<longleftrightarrow>
     left r \<le> fst p \<and> fst p < right r \<and> top_rect r \<le> snd p \<and> snd p < bottom r"

text \<open>
  \<^verbatim>\<open>pygame.math.lerp(a, b, weight)\<close> is \<open>a + (b - a) * weight\<close>, and a weight outside
  \<open>[0, 1]\<close> is rejected with a \<^verbatim>\<open>ValueError\<close>.
\<close>

definition lerp :: "real \<Rightarrow> real \<Rightarrow> real \<Rightarrow> error + real" where
  "lerp a b weight =
     (if 0 \<le> weight \<and> weight \<le> 1 then Inr (a + (b - a) * weight) else Inl ValueError)"

text \<open>
  The generator of \<^verbatim>\<open>random.random()\<close>: draw number \<open>n\<close> of the run is \<open>tape g n\<close>,
  and \<open>drawn g\<close> counts the draws made so far. Python promises draws in \<open>[0, 1)\<close>.
\<close>

record Rng =
  tape :: "nat \<Rightarrow> real"
  drawn :: nat

definition random_py :: "Rng \<Rightarrow> real \<times> Rng" where
  "random_py g = (tape g (drawn g), g\<lparr>drawn := Suc (drawn g)\<rparr>)"

definition unit_draws :: "Rng \<Rightarrow> bool" where
  "unit_draws g \<longleftrightarrow> (\<forall>n. 0 \<le> tape g n \<and> tape g n < 1)"

text \<open>
  What one frame can read from pygame: the clock, the pointer and the events that
  arrived since the previous frame.
\<close>

datatype event = QUIT | MOUSEBUTTONDOWN | MOUSEBUTTONUP | MOUSEMOTION | KEYDOWN

record pygame_env =
  ticks :: int
  mouse_pos :: "int \<times> int"
  event_queue :: "event list"

subsection \<open>box.py\<close>

text \<open>
  A \<^verbatim>\<open>Box\<close> has no \<^verbatim>\<open>rect\<close> attribute until \<^verbatim>\<open>update\<close> has run once, so the
  field is optional. The image is not modelled; its rectangle is, through the parameter
  \<open>image_rect\<close>: \<open>image_rect t p\<close> is the rectangle
  \<^verbatim>\<open>generate_text(t, font).get_rect(topleft=p)\<close> of the rendered label.
\<close>

record Box =
  lifetime :: real
  topleft :: Vector2
  created_at_timestamp_ms :: int
  rect :: "Rect option"

definition Box_init :: "real \<Rightarrow> Vector2 \<Rightarrow> int \<Rightarrow> Box" where
  "Box_init lifetime_seconds pos now =
     \<lparr>lifetime = lifetime_seconds, topleft = pos, created_at_timestamp_ms = now, rect = None\<rparr>"

definition time_left_seconds :: "Box \<Rightarrow> int \<Rightarrow> real" where
  "time_left_seconds b now = lifetime b - 0.001 * of_int (now - created_at_timestamp_ms b)"

definition alive :: "Box \<Rightarrow> int \<Rightarrow> bool" where
  "alive b now \<longleftrightarrow> time_left_seconds b now > 0"

definition update :: "(real \<Rightarrow> Vector2 \<Rightarrow> Rect) \<Rightarrow> Box \<Rightarrow> int \<Rightarrow> Box" where
  "update image_rect b now = b\<lparr>rect := Some (image_rect (time_left_seconds b now) (topleft b))\<rparr>"

definition is_hit_by_mouse :: "Box \<Rightarrow> int \<times> int \<Rightarrow> error + bool" where
  "is_hit_by_mouse b pointer =
     (case rect b of None \<Rightarrow> Inl AttributeError | Some r \<Rightarrow> Inr (collidepoint r pointer))"

subsection \<open>Binary64 arithmetic\<close>

text \<open>
  A Python float is an IEEE 754 binary64 number, and every literal and every operation is
  rounded to the nearest one, ties to the even significand. \<open>binary64 x\<close> is that
  rounding of the real \<open>x\<close>: the exponent of \<open>x\<close> is found by search from 0 (upwards
  for \<open>\<bar>x\<bar> \<ge> 1\<close>, downwards otherwise, stopping at the least normal exponent -1022), the
  significand has 53 bits, and a result of magnitude \<open>2 ^ 1024\<close> or more is no finite
  float (\<open>None\<close>).
\<close>

definition pow2 :: "int \<Rightarrow> real" where
  "pow2 k = (if 0 \<le> k then 2 ^ nat k else 1 / 2 ^ nat (- k))"

function exponent_up :: "real \<Rightarrow> int \<Rightarrow> int" where
  "exponent_up x e = (if 1023 \<le> e \<or> x < pow2 (e + 1) then e else exponent_up x (e + 1))"
  by pat_completeness auto
termination
  by (relation "measure (\<lambda>(x, e). nat (1023 - e))") auto

function exponent_down :: "real \<Rightarrow> int \<Rightarrow> int" where
  "exponent_down x e = (if e \<le> - 1022 \<or> pow2 e \<le> x then e else exponent_down x (e - 1))"
  by pat_completeness auto
termination
  by (relation "measure (\<lambda>(x, e). nat (e + 1022))") auto

definition binary64_exponent :: "real \<Rightarrow> int" where
  "binary64_exponent x =
     (if 1 \<le> \<bar>x\<bar> then exponent_up \<bar>x\<bar> 0 else exponent_down \<bar>x\<bar> (- 1))"

definition round_half_even :: "real \<Rightarrow> int" where
  "round_half_even q =
     (let f = \<lfloor>q\<rfloor>; r = q - of_int f
      in if r < 1 / 2 then f else if 1 / 2 < r then f + 1 else if even f then f else f + 1)"

definition binary64 :: "real \<Rightarrow> real option" where
  "binary64 x =
     (let ulp = pow2 (binary64_exponent x - 52);
          y = of_int (round_half_even (x / ulp)) * ulp
      in if \<bar>y\<bar> < 2 ^ 1024 then Some y else None)"

text \<open>
  \<^verbatim>\<open>Box.time_left_seconds\<close> as the interpreter evaluates it: the literal
  \<^verbatim>\<open>SECONDS_PR_MILLISECONDS = 0.001\<close>, the conversion of the elapsed milliseconds (an
  exact \<^verbatim>\<open>int\<close> difference) to a float, the product and the difference are each
  rounded. The lifetime is a float already.
\<close>

definition time_left_seconds_binary64 :: "Box \<Rightarrow> int \<Rightarrow> real option" where
  "time_left_seconds_binary64 b now =
     (case binary64 0.001 of
        None \<Rightarrow> None
      | Some seconds_pr_milliseconds \<Rightarrow>
          (case binary64 (of_int (now - created_at_timestamp_ms b)) of
             None \<Rightarrow> None
           | Some elapsed \<Rightarrow>
               (case binary64 (seconds_pr_milliseconds * elapsed) of
                  None \<Rightarrow> None
                | Some gone \<Rightarrow> binary64 (lifetime b - gone))))"

subsection \<open>box\_spawner.py\<close>

definition minimum_spawn_time_seconds :: "int \<Rightarrow> real" where
  "minimum_spawn_time_seconds score =
     (if score \<le> 5 then 1.0
      else if score \<ge> 20 then 0.1
      else 1.2 - 0.06 * of_int score)"

definition lifetime_from_score :: "int \<Rightarrow> real" where
  "lifetime_from_score score =
     (if score \<le> 5 then 7.0
      else if score \<ge> 20 then 1.0
      else 9.0 - 0.4 * of_int score)"

text \<open>
  \<^verbatim>\<open>SPAWN_WINDOW_SIZE_SECONDS\<close> comes from the settings module; it is the parameter
  \<open>window\<close> of every function that uses it.
\<close>

definition random_cooldown_spawn_seconds :: "real \<Rightarrow> int \<Rightarrow> Rng \<Rightarrow> real \<times> Rng" where
  "random_cooldown_spawn_seconds window score g =
     (case random_py g of (u, g') \<Rightarrow> (window * u + minimum_spawn_time_seconds score, g'))"

definition random_position_within_bounds :: "Rect \<Rightarrow> Rng \<Rightarrow> (error + Vector2) \<times> Rng" where
  "random_position_within_bounds bounds g =
     (case random_py g of (u, g1) \<Rightarrow>
        (case lerp (of_int (right bounds)) (of_int (left bounds)) u of
           Inl e \<Rightarrow> (Inl e, g1)
         | Inr x \<Rightarrow>
             (case random_py g1 of (v, g2) \<Rightarrow>
                (case lerp (of_int (bottom bounds)) (of_int (top_rect bounds)) v of
                   Inl e \<Rightarrow> (Inl e, g2)
                 | Inr y \<Rightarrow> (Inr (x, y), g2)))))"

record BoxSpawner =
  spawn_bounds :: Rect
  timestamp_next_spawn :: real

definition reset_spawn_timer ::
  "real \<Rightarrow> BoxSpawner \<Rightarrow> int \<Rightarrow> int \<Rightarrow> Rng \<Rightarrow> BoxSpawner \<times> Rng" where
  "reset_spawn_timer window sp score now g =
     (case random_cooldown_spawn_seconds window score g of
        (cooldown, g') \<Rightarrow> (sp\<lparr>timestamp_next_spawn := of_int now + 1000 * cooldown\<rparr>, g'))"

definition spawn_now ::
  "real \<Rightarrow> BoxSpawner \<Rightarrow> int \<Rightarrow> int \<Rightarrow> Rng \<Rightarrow> (error + Box) \<times> BoxSpawner \<times> Rng" where
  "spawn_now window sp score now g =
     (let lifetime_seconds = lifetime_from_score score in
      case random_position_within_bounds (spawn_bounds sp) g of
        (Inl e, g1) \<Rightarrow> (Inl e, sp, g1)
      | (Inr pos, g1) \<Rightarrow>
          (case reset_spawn_timer window sp score now g1 of
             (sp', g2) \<Rightarrow> (Inr (Box_init lifetime_seconds pos now), sp', g2)))"

text \<open>\<^verbatim>\<open>spawn\<close> falls off its end when the timer has not run out: the result is \<^verbatim>\<open>None\<close>.\<close>

definition spawn ::
  "real \<Rightarrow> BoxSpawner \<Rightarrow> int \<Rightarrow> int \<Rightarrow> Rng \<Rightarrow> (error + Box option) \<times> BoxSpawner \<times> Rng" where
  "spawn window sp score now g =
     (if of_int now \<ge> timestamp_next_spawn sp then
        (case spawn_now window sp score now g of
           (Inl e, sp', g') \<Rightarrow> (Inl e, sp', g')
         | (Inr b, sp', g') \<Rightarrow> (Inr (Some b), sp', g'))
      else (Inr None, sp, g))"

subsection \<open>main.py\<close>

text \<open>
  The sprite group \<^verbatim>\<open>boxes\<close> is the list of its members in insertion order. A box is
  told apart by its fields: two members with equal fields meet the same tests in one
  frame, so \<^verbatim>\<open>kill\<close> removes by value.
\<close>

record ButtonGame =
  player_score :: int
  player_lives :: int
  boxes :: "Box list"
  box_spawner :: BoxSpawner

definition kill :: "Box \<Rightarrow> ButtonGame \<Rightarrow> ButtonGame" where
  "kill b game = game\<lparr>boxes := removeAll b (boxes game)\<rparr>"

text \<open>
  The body of \<^verbatim>\<open>for box in self.boxes\<close>, run over the members the group had when the
  loop started. The two tests are two separate \<^verbatim>\<open>if\<close> statements.
\<close>

fun update_sprites_loop ::
  "pygame_env \<Rightarrow> Box list \<Rightarrow> ButtonGame \<Rightarrow> (error + unit) \<times> ButtonGame" where
  "update_sprites_loop env [] game = (Inr (), game)"
| "update_sprites_loop env (box # rest) game =
     (let game1 =
        (if \<not> alive box (ticks env)
         then kill box (game\<lparr>player_lives := player_lives game - 1\<rparr>)
         else game)
      in case is_hit_by_mouse box (mouse_pos env) of
           Inl e \<Rightarrow> (Inl e, game1)
         | Inr hit \<Rightarrow>
             update_sprites_loop env rest
               (if hit then kill box (game1\<lparr>player_score := player_score game1 + 1\<rparr>)
                else game1))"

definition update_sprites ::
  "(real \<Rightarrow> Vector2 \<Rightarrow> Rect) \<Rightarrow> pygame_env \<Rightarrow> ButtonGame \<Rightarrow> (error + unit) \<times> ButtonGame" where
  "update_sprites image_rect env game =
     (let game0 = game\<lparr>boxes := map (\<lambda>b. update image_rect b (ticks env)) (boxes game)\<rparr>
      in case update_sprites_loop env (boxes game0) game0 of
           (Inl e, game') \<Rightarrow> (Inl e, game')
         | (Inr u, game') \<Rightarrow>
             if player_lives game' \<le> 0 then (Inl GameOver, game') else (Inr (), game'))"

subsection \<open>Notions used to state the properties\<close>

text \<open>
  \<open>hit_at image_rect env b\<close>: the rectangle that \<^verbatim>\<open>update\<close> gives box \<open>b\<close> in the
  frame \<open>env\<close> contains the pointer. \<open>removed_by env b\<close>: one of the two tests of the
  loop body kills \<open>b\<close>.
\<close>

definition hit_at :: "(real \<Rightarrow> Vector2 \<Rightarrow> Rect) \<Rightarrow> pygame_env \<Rightarrow> Box \<Rightarrow> bool" where
  "hit_at image_rect env b \<longleftrightarrow>
     collidepoint (image_rect (time_left_seconds b (ticks env)) (topleft b)) (mouse_pos env)"

definition removed_by :: "pygame_env \<Rightarrow> Box \<Rightarrow> bool" where
  "removed_by env b \<longleftrightarrow>
     \<not> alive b (ticks env) \<or> is_hit_by_mouse b (mouse_pos env) = Inr True"

text \<open>
  Concrete values for the examples: a label of 60 by 30 pixels placed at the integer part
  of the position, a spawner over a 600 by 400 region whose timer runs out at 9000 ms, a
  game as \<^verbatim>\<open>ButtonGame\<close> starts it (score 0, three lives), and a generator whose
  every draw is one half.
\<close>

definition sample_label_rect :: "real \<Rightarrow> Vector2 \<Rightarrow> Rect" where
  "sample_label_rect t p = \<lparr>left = \<lfloor>fst p\<rfloor>, top_rect = \<lfloor>snd p\<rfloor>, width = 60, height = 30\<rparr>"

definition sample_spawner :: BoxSpawner where
  "sample_spawner =
     \<lparr>spawn_bounds = \<lparr>left = 100, top_rect = 100, width = 600, height = 400\<rparr>,
      timestamp_next_spawn = 9000\<rparr>"

definition sample_game :: "Box list \<Rightarrow> ButtonGame" where
  "sample_game bs =
     \<lparr>player_score = 0, player_lives = 3, boxes = bs, box_spawner = sample_spawner\<rparr>"

definition sample_rng :: Rng where
  "sample_rng = \<lparr>tape = (\<lambda>n. 1 / 2), drawn = 0\<rparr>"

section \<open>Auxiliary facts\<close>

subsection \<open>The difficulty curves\<close>

lemma curves_range:
  "1 \<le> lifetime_from_score s \<and> lifetime_from_score s \<le> 7 \<and>
   0.06 \<le> minimum_spawn_time_seconds s \<and> minimum_spawn_time_seconds s \<le> 1"
  by (auto simp: minimum_spawn_time_seconds_def lifetime_from_score_def)

lemma lifetime_from_score_antimono:
  "s1 \<le> s2 \<Longrightarrow> lifetime_from_score s2 \<le> lifetime_from_score s1"
  by (auto simp: lifetime_from_score_def)

subsection \<open>Binary64 roundings at the figures of the timer\<close>

text \<open>The rounding of the significand is to a nearest integer, and keeps an integer.\<close>

lemma round_half_even_nearest: "\<bar>of_int (round_half_even q) - q\<bar> \<le> 1 / 2"
  unfolding round_half_even_def Let_def by (simp; linarith)

lemma round_half_even_of_int: "round_half_even (of_int n) = n"
  by (simp add: round_half_even_def)

lemma binary64_literal_0001: "binary64 0.001 = Some (1152921504606847 / 2 ^ 60)"
proof -
  have "binary64_exponent 0.001 = - 10"
    by (simp add: binary64_exponent_def pow2_def)
  then show ?thesis
    by (simp add: binary64_def round_half_even_def pow2_def Let_def)
qed

lemma binary64_500: "binary64 500 = Some 500"
proof -
  have "binary64_exponent 500 = 8"
    by (simp add: binary64_exponent_def pow2_def)
  then show ?thesis
    by (simp add: binary64_def round_half_even_def pow2_def Let_def)
qed

lemma binary64_7100: "binary64 7100 = Some 7100"
proof -
  have "binary64_exponent 7100 = 12"
    by (simp add: binary64_exponent_def pow2_def)
  then show ?thesis
    by (simp add: binary64_def round_half_even_def pow2_def Let_def)
qed

lemma binary64_product_500: "binary64 (1152921504606847 / 2 ^ 60 * 500) = Some (1 / 2)"
proof -
  have "binary64_exponent (1152921504606847 / 2 ^ 60 * 500) = - 1"
    by (simp add: binary64_exponent_def pow2_def)
  then show ?thesis
    by (simp add: binary64_def round_half_even_def pow2_def Let_def)
qed

lemma binary64_product_7100:
  "binary64 (1152921504606847 / 2 ^ 60 * 7100) = Some (7993889338582631 / 2 ^ 50)"
proof -
  have "binary64_exponent (1152921504606847 / 2 ^ 60 * 7100) = 2"
    by (simp add: binary64_exponent_def pow2_def)
  then show ?thesis
    by (simp add: binary64_def round_half_even_def pow2_def Let_def)
qed

lemma binary64_difference_500: "binary64 (7 - 1 / 2) = Some 6.5"
proof -
  have "binary64_exponent (7 - 1 / 2) = 2"
    by (simp add: binary64_exponent_def pow2_def)
  then show ?thesis
    by (simp add: binary64_def round_half_even_def pow2_def Let_def)
qed

lemma binary64_difference_7100:
  "binary64 (7 - 7993889338582631 / 2 ^ 50) = Some (- (112589990684263 / 2 ^ 50))"
proof -
  have "binary64_exponent (7 - 7993889338582631 / 2 ^ 50) = - 4"
    by (simp add: binary64_exponent_def pow2_def)
  then show ?thesis
    by (simp add: binary64_def round_half_even_def pow2_def Let_def)
qed

subsection \<open>Interpolation\<close>

lemma lerp_in_range:
  "0 \<le> w \<Longrightarrow> w \<le> 1 \<Longrightarrow> lerp a b w = Inr (a + (b - a) * w)"
  by (simp add: lerp_def)

lemma lerp_between:
  assumes "(lo::real) \<le> hi" "0 \<le> w" "w \<le> 1"
  shows "lo \<le> hi + (lo - hi) * w \<and> hi + (lo - hi) * w \<le> hi"
proof -
  have "(hi - lo) * w \<le> (hi - lo) * 1"
    using assms by (intro mult_left_mono) simp_all
  moreover have "0 \<le> (hi - lo) * w"
    using assms by simp
  ultimately show ?thesis
    by (simp add: algebra_simps)
qed

subsection \<open>The spawner\<close>

lemma spawn_now_lifetime:
  "spawn_now window sp score now g = (Inr b, sp', g') \<Longrightarrow>
   lifetime b = lifetime_from_score score"
  by (auto simp: spawn_now_def Box_init_def Let_def split: prod.splits sum.splits)

subsection \<open>Boxes and the sprite group\<close>

lemma removeAll_as_filter: "removeAll b xs = filter (\<lambda>c. c \<noteq> b) xs"
  by (induction xs) auto


lemma update_fields [simp]:
  "lifetime (update R b now) = lifetime b"
  "topleft (update R b now) = topleft b"
  "created_at_timestamp_ms (update R b now) = created_at_timestamp_ms b"
  "rect (update R b now) = Some (R (time_left_seconds b now) (topleft b))"
  by (simp_all add: update_def time_left_seconds_def)

lemma update_alive [simp]: "alive (update R b now) t = alive b t"
  by (simp add: alive_def time_left_seconds_def)

lemma update_hit [simp]:
  "is_hit_by_mouse (update R b (ticks env)) (mouse_pos env) = Inr (hit_at R env b)"
  by (simp add: is_hit_by_mouse_def hit_at_def)

subsection \<open>The loop of \<^verbatim>\<open>update_sprites\<close>\<close>

text \<open>
  One turn of the loop on a box that has a rectangle: the score, the lives and the group
  after it.
\<close>

lemma loop_step_fields:
  assumes "rect box = Some r"
  shows "update_sprites_loop env (box # rest) game =
     update_sprites_loop env rest
       (game\<lparr>player_score := player_score game + (if collidepoint r (mouse_pos env) then 1 else 0),
             player_lives := player_lives game - (if alive box (ticks env) then 0 else 1),
             boxes := filter (\<lambda>c. \<not> (c = box \<and> removed_by env c)) (boxes game)\<rparr>)"
  using assms
  by (auto simp: is_hit_by_mouse_def removed_by_def kill_def removeAll_as_filter Let_def
      intro!: arg_cong[where f="update_sprites_loop env rest"] filter_cong)

text \<open>The loop raises nothing when every box it visits has been updated.\<close>

lemma loop_returns:
  "\<forall>b\<in>set bs. rect b \<noteq> None \<Longrightarrow> fst (update_sprites_loop env bs game) = Inr ()"
proof (induction bs arbitrary: game)
  case Nil
  then show ?case by simp
next
  case (Cons box rest)
  then obtain r where r: "rect box = Some r" by auto
  from Cons.prems have rest: "\<forall>b\<in>set rest. rect b \<noteq> None" by simp
  show ?case unfolding loop_step_fields[OF r] by (rule Cons.IH[OF rest])
qed

lemma loop_score:
  "\<forall>b\<in>set bs. rect b \<noteq> None \<Longrightarrow>
   player_score (snd (update_sprites_loop env bs game)) =
     player_score game
       + int (length (filter (\<lambda>b. is_hit_by_mouse b (mouse_pos env) = Inr True) bs))"
proof (induction bs arbitrary: game)
  case Nil
  then show ?case by simp
next
  case (Cons box rest)
  then obtain r where r: "rect box = Some r" by auto
  from Cons.prems have rest: "\<forall>b\<in>set rest. rect b \<noteq> None" by simp
  show ?case unfolding loop_step_fields[OF r] Cons.IH[OF rest]
    using r by (simp add: is_hit_by_mouse_def)
qed



lemma loop_ignores_events:
  "update_sprites_loop (env\<lparr>event_queue := q\<rparr>) bs game = update_sprites_loop env bs game"
  by (induction bs arbitrary: game) (simp_all add: Let_def split: sum.split)

subsection \<open>\<^verbatim>\<open>update_sprites\<close> as a whole\<close>

lemma update_sprites_unfold:
  "update_sprites R env game =
     (let game0 = game\<lparr>boxes := map (\<lambda>b. update R b (ticks env)) (boxes game)\<rparr>;
          game' = snd (update_sprites_loop env (boxes game0) game0)
      in (if player_lives game' \<le> 0 then Inl GameOver else Inr (), game'))"
proof -
  let ?game0 = "game\<lparr>boxes := map (\<lambda>b. update R b (ticks env)) (boxes game)\<rparr>"
  have "fst (update_sprites_loop env (boxes ?game0) ?game0) = Inr ()"
    by (rule loop_returns) simp
  then show ?thesis
    by (cases "update_sprites_loop env (boxes ?game0) ?game0")
       (simp add: update_sprites_def Let_def)
qed

lemma update_sprites_score:
  "player_score (snd (update_sprites R env game)) =
     player_score game + int (length (filter (hit_at R env) (boxes game)))"
  by (simp add: update_sprites_unfold Let_def loop_score comp_def)



lemma update_sprites_outcome:
  "fst (update_sprites R env game) =
     (if player_lives (snd (update_sprites R env game)) \<le> 0 then Inl GameOver else Inr ())"
  by (simp add: update_sprites_unfold Let_def)

lemma update_sprites_ignores_events:
  "update_sprites R (env\<lparr>event_queue := q\<rparr>) game = update_sprites R env game"
  by (simp add: update_sprites_def loop_ignores_events)

section \<open>The claims\<close>

subsection \<open>Difficulty curves\<close>

text \<open>
  Claim C2 says that both curves never rise as the score grows. The source breaks this for
  \<open>minimum_spawn_time_seconds\<close> between the scores 19 and 20: the linear piece has come
  down to \<open>0.06\<close> at 19, and the clamp at 20 is \<open>0.1\<close>. (The other curve,
  \<open>lifetime_from_score\<close>, does fall throughout: \<open>lifetime_from_score_antimono\<close>.)
\<close>

theorem minimum_spawn_time_rises_at_20:
  "minimum_spawn_time_seconds 19 = 0.06 \<and> minimum_spawn_time_seconds 20 = 0.1 \<and>
   \<not> minimum_spawn_time_seconds 19 \<ge> minimum_spawn_time_seconds 20"
  by (simp add: minimum_spawn_time_seconds_def)

text \<open>
  Claim C4: for every integer score, the minimum spawn time is \<open>1.0\<close> and the lifetime
  \<open>7.0\<close> when the score is at most 5; they are \<open>0.1\<close> and \<open>1.0\<close> when the score is at
  least 20; and strictly between 5 and 20 they are \<open>1.2 - 0.06 * score\<close> and
  \<open>9.0 - 0.4 * score\<close>.
\<close>

theorem difficulty_curves_piecewise:
  "(score \<le> 5 \<longrightarrow>
      minimum_spawn_time_seconds score = 1.0 \<and> lifetime_from_score score = 7.0) \<and>
   (score \<ge> 20 \<longrightarrow>
      minimum_spawn_time_seconds score = 0.1 \<and> lifetime_from_score score = 1.0) \<and>
   (5 < score \<and> score < 20 \<longrightarrow>
      minimum_spawn_time_seconds score = 1.2 - 0.06 * of_int score \<and>
      lifetime_from_score score = 9.0 - 0.4 * of_int score)"
  by (simp add: minimum_spawn_time_seconds_def lifetime_from_score_def)

theorem difficulty_curves_piecewise_witness:
  "((3::int) \<le> 5 \<and> minimum_spawn_time_seconds 3 = 1.0 \<and> lifetime_from_score 3 = 7.0) \<and>
   ((25::int) \<ge> 20 \<and> minimum_spawn_time_seconds 25 = 0.1 \<and> lifetime_from_score 25 = 1.0) \<and>
   ((5::int) < 10 \<and> (10::int) < 20 \<and> minimum_spawn_time_seconds 10 = 0.6 \<and>
      lifetime_from_score 10 = 5.0)"
  using difficulty_curves_piecewise [of 3] difficulty_curves_piecewise [of 25]
    difficulty_curves_piecewise [of 10]
  by simp

text \<open>
  Claim C10: for every integer score, negative ones included, the lifetime lies in
  \<open>[1.0, 7.0]\<close> and the minimum spawn time in \<open>[0.06, 1.0]\<close>; so every box that
  \<open>spawn_now\<close> returns has a strictly positive lifetime, and every reset of the spawn
  timer adds a strictly positive cooldown to the clock reading. The cooldown is
  \<open>window * u + minimum_spawn_time_seconds score\<close> for a draw \<open>u\<close>; the window size of
  the settings module is taken to be non-negative and the draws to lie in \<open>[0, 1)\<close>.
\<close>

theorem curves_bounded_and_positive:
  "1 \<le> lifetime_from_score score \<and> lifetime_from_score score \<le> 7 \<and>
   0.06 \<le> minimum_spawn_time_seconds score \<and> minimum_spawn_time_seconds score \<le> 1 \<and>
   (\<forall>b sp' g'. spawn_now window sp score now g = (Inr b, sp', g') \<longrightarrow> 0 < lifetime b) \<and>
   (0 \<le> window \<and> unit_draws g \<longrightarrow>
      0 < fst (random_cooldown_spawn_seconds window score g) \<and>
      timestamp_next_spawn (fst (reset_spawn_timer window sp score now g)) =
        of_int now + 1000 * fst (random_cooldown_spawn_seconds window score g))"
proof -
  have curves: "1 \<le> lifetime_from_score score \<and> lifetime_from_score score \<le> 7 \<and>
      0.06 \<le> minimum_spawn_time_seconds score \<and> minimum_spawn_time_seconds score \<le> 1"
    by (rule curves_range)
  have life: "\<forall>b sp' g'. spawn_now window sp score now g = (Inr b, sp', g') \<longrightarrow> 0 < lifetime b"
    using curves by (auto dest!: spawn_now_lifetime)
  have cool: "0 < fst (random_cooldown_spawn_seconds window score g)"
    if "0 \<le> window" "unit_draws g"
  proof -
    from that have "0 \<le> window * tape g (drawn g)"
      by (simp add: unit_draws_def)
    with curves show ?thesis
      by (simp add: random_cooldown_spawn_seconds_def random_py_def)
  qed
  have reset: "timestamp_next_spawn (fst (reset_spawn_timer window sp score now g)) =
        of_int now + 1000 * fst (random_cooldown_spawn_seconds window score g)"
    by (simp add: reset_spawn_timer_def split: prod.splits)
  from curves life cool reset show ?thesis by blast
qed

theorem curves_bounded_and_positive_witness:
  "spawn_now 2 sample_spawner (- 4) 9000 sample_rng =
     (Inr (Box_init 7 (400, 300) 9000),
      sample_spawner\<lparr>timestamp_next_spawn := 11000\<rparr>, sample_rng\<lparr>drawn := 3\<rparr>) \<and>
   0 < lifetime (Box_init 7 (400, 300) 9000) \<and>
   (0::real) \<le> 2 \<and> unit_draws sample_rng \<and>
   0 < fst (random_cooldown_spawn_seconds 2 (- 4) sample_rng) \<and>
   timestamp_next_spawn (fst (reset_spawn_timer 2 sample_spawner (- 4) 9000 sample_rng)) =
     of_int 9000 + 1000 * fst (random_cooldown_spawn_seconds 2 (- 4) sample_rng)"
proof -
  have run: "spawn_now 2 sample_spawner (- 4) 9000 sample_rng =
     (Inr (Box_init 7 (400, 300) 9000),
      sample_spawner\<lparr>timestamp_next_spawn := 11000\<rparr>, sample_rng\<lparr>drawn := 3\<rparr>)"
    by (simp add: spawn_now_def random_position_within_bounds_def random_py_def lerp_def
        reset_spawn_timer_def random_cooldown_spawn_seconds_def lifetime_from_score_def
        minimum_spawn_time_seconds_def sample_spawner_def sample_rng_def right_def bottom_def
        numeral_3_eq_3)
  have draws: "unit_draws sample_rng"
    by (simp add: unit_draws_def sample_rng_def)
  show ?thesis
    using curves_bounded_and_positive [of "- 4" 2 sample_spawner 9000 sample_rng] run draws
    by simp
qed

subsection \<open>The timer of a box\<close>

text \<open>
  Claim C5, amended: for a box of lifetime \<open>L\<close> seconds created at \<open>c\<close> milliseconds,
  the time left at \<open>now\<close> is \<open>L - 0.001 * (now - c)\<close>, in exact arithmetic \<open>L\<close> minus
  the elapsed milliseconds expressed in seconds, and it may be negative. The source
  evaluates the expression in binary64: a box of lifetime 7.0 created at 1000 has exactly
  6.5 seconds left at 1500, and at 8100 it has \<open>-112589990684263 / 2 ^ 50\<close> seconds left,
  printed -0.10000000000000053, which is within \<open>10 ^ -15\<close> of -0.1.
\<close>

theorem time_left_seconds_binary64_figures:
  "time_left_seconds (Box_init L p c) now = L - of_int (now - c) / 1000 \<and>
   time_left_seconds_binary64 (Box_init 7.0 p 1000) 1500 = Some 6.5 \<and>
   time_left_seconds_binary64 (Box_init 7.0 p 1000) 8100 =
     Some (- (112589990684263 / 2 ^ 50)) \<and>
   \<bar>- (112589990684263 / 2 ^ 50) - (- 0.1 :: real)\<bar> < 1 / 10 ^ 15"
proof (intro conjI)
  show "time_left_seconds (Box_init L p c) now = L - of_int (now - c) / 1000"
    by (simp add: time_left_seconds_def Box_init_def)
  show "time_left_seconds_binary64 (Box_init 7.0 p 1000) 1500 = Some 6.5"
    using binary64_literal_0001 binary64_500 binary64_product_500 binary64_difference_500
    by (simp add: time_left_seconds_binary64_def Box_init_def)
  show "time_left_seconds_binary64 (Box_init 7.0 p 1000) 8100 =
     Some (- (112589990684263 / 2 ^ 50))"
    using binary64_literal_0001 binary64_7100 binary64_product_7100 binary64_difference_7100
    by (simp add: time_left_seconds_binary64_def Box_init_def)
  show "\<bar>- (112589990684263 / 2 ^ 50) - (- 0.1 :: real)\<bar> < 1 / 10 ^ 15"
    by simp
qed

text \<open>
  The claim as first stated gives -0.1 for the second figure. The value returned for a box
  of lifetime 7.0 created at 1000 and read at 8100 is not -0.1: the product
  \<open>0.001 * 7100\<close> rounds to 7.1000000000000005.
\<close>

theorem time_left_at_8100_is_not_minus_tenth:
  "time_left_seconds_binary64 (Box_init 7.0 (0, 0) 1000) 8100 =
     Some (- (112589990684263 / 2 ^ 50)) \<and>
   time_left_seconds_binary64 (Box_init 7.0 (0, 0) 1000) 8100 \<noteq> Some (- 0.1)"
  using binary64_literal_0001 binary64_7100 binary64_product_7100 binary64_difference_7100
  by (simp add: time_left_seconds_binary64_def Box_init_def)

text \<open>
  Claim C6: for a fixed box the time left strictly decreases as the clock advances; the box
  is alive exactly at the clock readings before its creation time plus its lifetime (the
  lifetime counted in milliseconds), so \<open>alive\<close> turns false at that instant, once, and
  stays false at every later reading.
\<close>

theorem time_left_decreases_alive_flips_once:
  "(now1 < now2 \<longrightarrow> time_left_seconds b now2 < time_left_seconds b now1) \<and>
   (alive b now \<longleftrightarrow> of_int now < of_int (created_at_timestamp_ms b) + 1000 * lifetime b) \<and>
   (\<not> alive b now1 \<and> now1 \<le> now2 \<longrightarrow> \<not> alive b now2)"
  by (auto simp: time_left_seconds_def alive_def)

theorem time_left_decreases_alive_flips_once_witness:
  "(1500::int) < 8100 \<and>
   time_left_seconds (Box_init 7 (0, 0) 1000) 8100 < time_left_seconds (Box_init 7 (0, 0) 1000) 1500 \<and>
   alive (Box_init 7 (0, 0) 1000) 7999 \<and>
   \<not> alive (Box_init 7 (0, 0) 1000) 8000 \<and> (8000::int) \<le> 8100 \<and>
   \<not> alive (Box_init 7 (0, 0) 1000) 8100"
  using time_left_decreases_alive_flips_once [of 1500 8100 "Box_init 7 (0, 0) 1000" 7999]
    time_left_decreases_alive_flips_once [of 8000 8100 "Box_init 7 (0, 0) 1000" 8000]
  by (simp add: Box_init_def)

subsection \<open>The spawner\<close>

text \<open>
  Claim C7: when the clock has reached \<open>timestamp_next_spawn\<close>, \<open>spawn\<close> returns what
  \<open>spawn_now\<close> returns (the box, with the spawner and the generator as \<open>spawn_now\<close>
  leaves them); otherwise it returns \<^verbatim>\<open>None\<close> and the spawner, bounds and timer, and
  the generator are as before the call.
\<close>

theorem spawn_fires_or_leaves_state:
  "(timestamp_next_spawn sp \<le> of_int now \<longrightarrow>
      spawn window sp score now g =
        (case spawn_now window sp score now g of
           (r, sp', g') \<Rightarrow> (map_sum id Some r, sp', g'))) \<and>
   (of_int now < timestamp_next_spawn sp \<longrightarrow>
      spawn window sp score now g = (Inr None, sp, g))"
  by (auto simp: spawn_def split: prod.splits sum.splits)

theorem spawn_fires_or_leaves_state_witness:
  "timestamp_next_spawn sample_spawner \<le> of_int 9000 \<and>
   spawn 2 sample_spawner 0 9000 sample_rng =
     (Inr (Some (Box_init 7 (400, 300) 9000)),
      sample_spawner\<lparr>timestamp_next_spawn := 11000\<rparr>, sample_rng\<lparr>drawn := 3\<rparr>) \<and>
   of_int 8999 < timestamp_next_spawn sample_spawner \<and>
   spawn 2 sample_spawner 0 8999 sample_rng = (Inr None, sample_spawner, sample_rng)"
proof -
  have run: "spawn_now 2 sample_spawner 0 9000 sample_rng =
     (Inr (Box_init 7 (400, 300) 9000),
      sample_spawner\<lparr>timestamp_next_spawn := 11000\<rparr>, sample_rng\<lparr>drawn := 3\<rparr>)"
    by (simp add: spawn_now_def random_position_within_bounds_def random_py_def lerp_def
        reset_spawn_timer_def random_cooldown_spawn_seconds_def lifetime_from_score_def
        minimum_spawn_time_seconds_def sample_spawner_def sample_rng_def right_def bottom_def
        numeral_3_eq_3)
  have due: "timestamp_next_spawn sample_spawner \<le> of_int 9000"
    and early: "of_int 8999 < timestamp_next_spawn sample_spawner"
    by (simp_all add: sample_spawner_def)
  show ?thesis
    using spawn_fires_or_leaves_state [of sample_spawner 9000 2 0 sample_rng]
      spawn_fires_or_leaves_state [of sample_spawner 8999 2 0 sample_rng] run due early
    by simp
qed

text \<open>
  Claim C9: for every bounds rectangle and every two draws in \<open>[0, 1]\<close>,
  \<open>random_position_within_bounds\<close> returns a point \<open>(x, y)\<close> with \<open>left \<le> x \<le> right\<close>
  and \<open>top \<le> y \<le> bottom\<close>, where \<open>x\<close> is interpolated from \<open>right\<close> to \<open>left\<close> by the
  first draw and \<open>y\<close> from \<open>bottom\<close> to \<open>top\<close> by the second. A bounds rectangle has a
  width and a height that are not negative: it is a region with \<open>left \<le> right\<close> and
  \<open>top \<le> bottom\<close>, as the game builds it.
\<close>

theorem random_position_within_bounds_inside:
  assumes "0 \<le> width bounds" "0 \<le> height bounds"
    and "0 \<le> tape g (drawn g)" "tape g (drawn g) \<le> 1"
    and "0 \<le> tape g (Suc (drawn g))" "tape g (Suc (drawn g)) \<le> 1"
  shows "\<exists>x y. fst (random_position_within_bounds bounds g) = Inr (x, y) \<and>
     x = of_int (right bounds)
           + (of_int (left bounds) - of_int (right bounds)) * tape g (drawn g) \<and>
     y = of_int (bottom bounds)
           + (of_int (top_rect bounds) - of_int (bottom bounds)) * tape g (Suc (drawn g)) \<and>
     of_int (left bounds) \<le> x \<and> x \<le> of_int (right bounds) \<and>
     of_int (top_rect bounds) \<le> y \<and> y \<le> of_int (bottom bounds)"
proof -
  have lr: "(of_int (left bounds) :: real) \<le> of_int (right bounds)"
    using assms(1) by (simp add: right_def)
  have tb: "(of_int (top_rect bounds) :: real) \<le> of_int (bottom bounds)"
    using assms(2) by (simp add: bottom_def)
  show ?thesis
    using lerp_between[OF lr assms(3,4)] lerp_between[OF tb assms(5,6)] assms(3-6)
    by (simp add: random_position_within_bounds_def random_py_def lerp_in_range)
qed

theorem random_position_within_bounds_inside_witness:
  "0 \<le> width (spawn_bounds sample_spawner) \<and> 0 \<le> height (spawn_bounds sample_spawner) \<and>
   0 \<le> tape sample_rng (drawn sample_rng) \<and> tape sample_rng (drawn sample_rng) \<le> 1 \<and>
   0 \<le> tape sample_rng (Suc (drawn sample_rng)) \<and> tape sample_rng (Suc (drawn sample_rng)) \<le> 1 \<and>
   fst (random_position_within_bounds (spawn_bounds sample_spawner) sample_rng) = Inr (400, 300)"
  using random_position_within_bounds_inside [of "spawn_bounds sample_spawner" sample_rng]
  by (simp add: sample_spawner_def sample_rng_def right_def bottom_def)

subsection \<open>The sprite update\<close>




text \<open>
  Claim C3 says that the score is incremented for a box only if its rectangle contains the
  pointer and a click arrived in the same frame, so that hovering alone never scores; the
  docstring of \<^verbatim>\<open>update_sprites\<close> says likewise that the score increases when the
  player presses a box. The source tests the pointer position alone
  (\<open>update_sprites_score\<close>) and reads no event (\<open>update_sprites_ignores_events\<close>). A
  frame at 1000 ms whose only event is a pointer motion, with the pointer at
  \<open>(105, 105)\<close> over a live box at \<open>(100, 100)\<close>: the score goes from 0 to 1 and the box
  is killed.
\<close>

theorem hover_without_click_scores:
  "MOUSEBUTTONDOWN \<notin>
     set (event_queue \<lparr>ticks = 1000, mouse_pos = (105, 105), event_queue = [MOUSEMOTION]\<rparr>) \<and>
   alive (Box_init 7 (100, 100) 0) 1000 \<and>
   player_score (sample_game [Box_init 7 (100, 100) 0]) = 0 \<and>
   update_sprites sample_label_rect
     \<lparr>ticks = 1000, mouse_pos = (105, 105), event_queue = [MOUSEMOTION]\<rparr>
     (sample_game [Box_init 7 (100, 100) 0]) =
   (Inr (), \<lparr>player_score = 1, player_lives = 3, boxes = [], box_spawner = sample_spawner\<rparr>)"
  by (simp add: update_sprites_def sample_game_def sample_label_rect_def Box_init_def update_def
      time_left_seconds_def alive_def is_hit_by_mouse_def collidepoint_def right_def bottom_def
      kill_def Let_def)

text \<open>
  Claim C8: for every game state, hence for every reachable one, and every frame update:
  when the update returns normally the lives are at least 0 (indeed positive); the update
  raises \<^verbatim>\<open>GameOver\<close> exactly when the lives after it are at most 0, and it raises
  nothing else; and the score after the update is at least the score before it.
\<close>

theorem update_sprites_lives_gameover_score:
  "(fst (update_sprites R env game) = Inr () \<longrightarrow>
      0 \<le> player_lives (snd (update_sprites R env game))) \<and>
   (fst (update_sprites R env game) = Inl GameOver \<longleftrightarrow>
      player_lives (snd (update_sprites R env game)) \<le> 0) \<and>
   (fst (update_sprites R env game) = Inr () \<longleftrightarrow>
      0 < player_lives (snd (update_sprites R env game))) \<and>
   player_score game \<le> player_score (snd (update_sprites R env game))"
  by (simp add: update_sprites_outcome update_sprites_score)

theorem update_sprites_lives_gameover_score_witness:
  "fst (update_sprites sample_label_rect
       \<lparr>ticks = 8000, mouse_pos = (0, 0), event_queue = []\<rparr>
       (sample_game [Box_init 7 (100, 100) 0])) = Inr () \<and>
   0 \<le> player_lives (snd (update_sprites sample_label_rect
       \<lparr>ticks = 8000, mouse_pos = (0, 0), event_queue = []\<rparr>
       (sample_game [Box_init 7 (100, 100) 0]))) \<and>
   fst (update_sprites sample_label_rect
       \<lparr>ticks = 8000, mouse_pos = (0, 0), event_queue = []\<rparr>
       ((sample_game [Box_init 7 (100, 100) 0])\<lparr>player_lives := 1\<rparr>)) = Inl GameOver \<and>
   player_lives (snd (update_sprites sample_label_rect
       \<lparr>ticks = 8000, mouse_pos = (0, 0), event_queue = []\<rparr>
       ((sample_game [Box_init 7 (100, 100) 0])\<lparr>player_lives := 1\<rparr>))) \<le> 0"
  using update_sprites_lives_gameover_score
      [of sample_label_rect "\<lparr>ticks = 8000, mouse_pos = (0, 0), event_queue = []\<rparr>"
        "sample_game [Box_init 7 (100, 100) 0]"]
    update_sprites_lives_gameover_score
      [of sample_label_rect "\<lparr>ticks = 8000, mouse_pos = (0, 0), event_queue = []\<rparr>"
        "(sample_game [Box_init 7 (100, 100) 0])\<lparr>player_lives := 1\<rparr>"]
  by (simp add: update_sprites_def sample_game_def sample_label_rect_def Box_init_def update_def
      time_left_seconds_def alive_def is_hit_by_mouse_def collidepoint_def right_def bottom_def
      kill_def Let_def)

end
